theory Spec2Isabelle
  imports Complex_Main "HOL-Library.Sublist"
begin

section \<open>Python values, exceptions and the objects the handlers touch\<close>

text \<open>
  The repository is two FastAPI services and two batch scripts around the docling
  converter, the docling chunker and the OpenAI embeddings client. Those libraries are
  not part of the repository: every call into them is a field of an environment record,
  and each such call may raise. File contents are byte strings, embedding vectors are
  lists of numbers that the handlers only pass through.
\<close>

type_synonym bytes = "char list"
type_synonym vector = "real list"

datatype json = JNull | JBool bool | JNum int | JStr string
  | JList "json list" | JDict "(string \<times> json) list"

type_synonym dict = "(string \<times> json) list"

text \<open>
  \<open>IndexError\<close> is the one exception the handlers raise themselves (by indexing the
  embeddings response); \<open>Raised msg\<close> is any exception coming out of a library call,
  with \<open>msg\<close> what \<^verbatim>\<open>str(e)\<close> gives.
\<close>

datatype py_exception = IndexError | Raised string

fun py_str :: "py_exception \<Rightarrow> string" where
  "py_str IndexError = ''list index out of range''"
| "py_str (Raised msg) = msg"

text \<open>
  A chunk's \<^verbatim>\<open>meta\<close> object: \<open>export_json_dict = None\<close> when the attribute is absent
  (\<^verbatim>\<open>hasattr\<close> is false), otherwise what calling it gives.
\<close>

record meta_obj =
  export_json_dict :: "(py_exception + dict) option"

record base_chunk =
  chunk_text :: string
  ancestors :: "(string \<times> nat) list"
  chunk_meta :: meta_obj

record upload_file =
  filename :: "string option"
  read :: "py_exception + bytes"

text \<open>
  The world outside the handler: the files on disk, and the trace of the file-system and
  library steps the handler has invoked, in order.
\<close>

datatype event = TmpCreate string | Convert string | ExportToText | Chunk
  | EmbeddingsCreate string "string list" | Unlink string

record world =
  files :: "string \<rightharpoonup> bytes"
  trace :: "event list"

record 'doc env =
  get_document_converter :: "py_exception option"
  get_chunker :: "py_exception option"
  get_openai_client :: "py_exception option"
  named_temporary_file :: "py_exception + string"
  convert :: "(string \<rightharpoonup> bytes) \<Rightarrow> string \<Rightarrow> py_exception + 'doc"
  export_to_text :: "'doc \<Rightarrow> py_exception + string"
  chunk :: "'doc \<Rightarrow> base_chunk list \<times> py_exception option"
  contextualize :: "base_chunk \<Rightarrow> py_exception + string"
  embeddings_create :: "string \<Rightarrow> string list \<Rightarrow> py_exception + vector list"

text \<open>
  \<open>chunk env doc = (cs, fin)\<close>: the iterator yields the chunks \<open>cs\<close> and then either
  stops (\<open>fin = None\<close>) or raises (\<open>fin = Some e\<close>).
\<close>

datatype http_error = HTTPException nat string | Unhandled py_exception

section \<open>pdf-ingestion-service/main.py\<close>

record chunk_info =
  info_text :: string
  info_contextualized_text :: string
  info_meta :: dict
  info_index :: int

record chunk_response =
  cr_text :: string
  contextualized_text :: string
  embedding :: vector
  index :: int
  meta :: dict

record processed_document_response =
  chunks :: "chunk_response list"
  total_chunks :: int
  full_text :: string

definition endswith :: "string \<Rightarrow> string \<Rightarrow> bool" where
  "endswith s suf \<longleftrightarrow> length suf \<le> length s \<and> drop (length s - length suf) s = suf"

text \<open>\<^verbatim>\<open>not file.filename or not file.filename.endswith('.pdf')\<close>\<close>

definition not_pdf :: "upload_file \<Rightarrow> bool" where
  "not_pdf file \<longleftrightarrow>
     (case filename file of None \<Rightarrow> True | Some n \<Rightarrow> n = [] \<or> \<not> endswith n ''.pdf'')"

text \<open>\<^verbatim>\<open>chunk.meta.export_json_dict() if hasattr(chunk.meta, 'export_json_dict') else {}\<close>\<close>

definition meta_dict :: "meta_obj \<Rightarrow> py_exception + dict" where
  "meta_dict m = (case export_json_dict m of None \<Rightarrow> Inr [] | Some r \<Rightarrow> r)"

text \<open>
  The first loop (\<^verbatim>\<open>for idx, chunk in enumerate(chunk_iter)\<close>), with its counter and its
  two accumulators \<^verbatim>\<open>chunk_data\<close> and \<^verbatim>\<open>contextualized_texts\<close>.
\<close>

fun collect_chunks ::
  "'doc env \<Rightarrow> nat \<Rightarrow> base_chunk list \<Rightarrow> chunk_info list \<Rightarrow> string list
     \<Rightarrow> py_exception + (chunk_info list \<times> string list)" where
  "collect_chunks env idx [] chunk_data texts = Inr (chunk_data, texts)"
| "collect_chunks env idx (c # cs) chunk_data texts =
     (case contextualize env c of
        Inl e \<Rightarrow> Inl e
      | Inr ct \<Rightarrow>
          (case meta_dict (chunk_meta c) of
             Inl e \<Rightarrow> Inl e
           | Inr m \<Rightarrow>
               collect_chunks env (Suc idx) cs
                 (chunk_data @ [\<lparr>info_text = chunk_text c, info_contextualized_text = ct,
                                 info_meta = m, info_index = int idx\<rparr>])
                 (texts @ [ct])))"

text \<open>
  The second loop (\<^verbatim>\<open>for i, chunk_info in enumerate(chunk_data)\<close>): \<^verbatim>\<open>data[i]\<close> raises
  IndexError once \<open>i\<close> reaches the length of the returned list.
\<close>

fun attach_embeddings ::
  "vector list \<Rightarrow> nat \<Rightarrow> chunk_info list \<Rightarrow> chunk_response list
     \<Rightarrow> py_exception + chunk_response list" where
  "attach_embeddings data i [] acc = Inr acc"
| "attach_embeddings data i (ci # rest) acc =
     (if i < length data
      then attach_embeddings data (Suc i) rest
             (acc @ [\<lparr>cr_text = info_text ci,
                      contextualized_text = info_contextualized_text ci,
                      embedding = data ! i,
                      index = info_index ci,
                      meta = info_meta ci\<rparr>])
      else Inl IndexError)"

definition log_event :: "event \<Rightarrow> world \<Rightarrow> world" where
  "log_event ev w = w\<lparr>trace := trace w @ [ev]\<rparr>"

text \<open>\<^verbatim>\<open>if tmp_file_path: Path(tmp_file_path).unlink(missing_ok=True)\<close>\<close>

definition cleanup :: "string option \<Rightarrow> world \<Rightarrow> world" where
  "cleanup tmp_file_path w =
     (case tmp_file_path of
        None \<Rightarrow> w
      | Some p \<Rightarrow>
          if p = [] then w
          else w\<lparr>files := (files w)(p := None), trace := trace w @ [Unlink p]\<rparr>)"

text \<open>
  Lines 121 to 158: from the conversion of the staged file to the list of chunk
  responses. The world is returned on every path, an exception included.
\<close>

definition convert_and_embed ::
  "'doc env \<Rightarrow> string \<Rightarrow> world
     \<Rightarrow> (py_exception + (chunk_response list \<times> string)) \<times> world" where
  "convert_and_embed env path w =
     (let w1 = log_event (Convert path) w in
      case convert env (files w) path of
        Inl e \<Rightarrow> (Inl e, w1)
      | Inr doc \<Rightarrow>
          (let w2 = log_event ExportToText w1 in
           case export_to_text env doc of
             Inl e \<Rightarrow> (Inl e, w2)
           | Inr text \<Rightarrow>
               (let w3 = log_event Chunk w2 in
                case collect_chunks env 0 (fst (chunk env doc)) [] [] of
                  Inl e \<Rightarrow> (Inl e, w3)
                | Inr (chunk_data, texts) \<Rightarrow>
                    (case snd (chunk env doc) of
                       Some e \<Rightarrow> (Inl e, w3)
                     | None \<Rightarrow>
                         (let w4 = log_event
                                     (EmbeddingsCreate ''text-embedding-3-small'' texts) w3 in
                          case embeddings_create env ''text-embedding-3-small'' texts of
                            Inl e \<Rightarrow> (Inl e, w4)
                          | Inr data \<Rightarrow>
                              (case attach_embeddings data 0 chunk_data [] of
                                 Inl e \<Rightarrow> (Inl e, w4)
                               | Inr cs \<Rightarrow> (Inr (cs, text), w4)))))))"

text \<open>
  The body of the \<^verbatim>\<open>try\<close>. The second component is the variable \<^verbatim>\<open>tmp_file_path\<close> as
  the \<^verbatim>\<open>except\<close> clause will see it: it is assigned only after the upload has been read
  and written, although \<^verbatim>\<open>NamedTemporaryFile(delete=False)\<close> has created the file on
  entry of the \<^verbatim>\<open>with\<close> block. Writing and closing the temporary file are taken to
  succeed.
\<close>

definition try_body ::
  "'doc env \<Rightarrow> upload_file \<Rightarrow> world
     \<Rightarrow> (py_exception + processed_document_response) \<times> string option \<times> world" where
  "try_body env file w =
     (case named_temporary_file env of
        Inl e \<Rightarrow> (Inl e, None, w)
      | Inr name \<Rightarrow>
          (let w1 = log_event (TmpCreate name) (w\<lparr>files := (files w)(name \<mapsto> [])\<rparr>) in
           case read file of
             Inl e \<Rightarrow> (Inl e, None, w1)
           | Inr content \<Rightarrow>
               (let w2 = w1\<lparr>files := (files w1)(name \<mapsto> content)\<rparr> in
                case convert_and_embed env name w2 of
                  (Inl e, w3) \<Rightarrow> (Inl e, Some name, w3)
                | (Inr (cs, text), w3) \<Rightarrow>
                    (Inr \<lparr>chunks = cs, total_chunks = int (length cs), full_text = text\<rparr>,
                     Some name, cleanup (Some name) w3))))"

text \<open>
  The handler. The three singleton getters run before the \<^verbatim>\<open>try\<close>, so an exception of
  theirs is not turned into an HTTP 500 by the handler itself.
\<close>

definition process_pdf_document ::
  "'doc env \<Rightarrow> upload_file \<Rightarrow> world \<Rightarrow> (http_error + processed_document_response) \<times> world"
  where
  "process_pdf_document env file w =
     (if not_pdf file then (Inl (HTTPException 400 ''Only PDF files are supported''), w)
      else
        (case get_document_converter env of
           Some e \<Rightarrow> (Inl (Unhandled e), w)
         | None \<Rightarrow>
        (case get_chunker env of
           Some e \<Rightarrow> (Inl (Unhandled e), w)
         | None \<Rightarrow>
        (case get_openai_client env of
           Some e \<Rightarrow> (Inl (Unhandled e), w)
         | None \<Rightarrow>
        (case try_body env file w of
           (Inr resp, tmp_file_path, w') \<Rightarrow> (Inr resp, w')
         | (Inl e, tmp_file_path, w') \<Rightarrow>
             (Inl (HTTPException 500 (''Error processing PDF: '' @ py_str e)),
              cleanup tmp_file_path w'))))))"

section \<open>pdf-ingestion/main.py\<close>

text \<open>
  The second service has the same shape without the embeddings step, the full text and
  the index field. Its two response classes carry the names of the first service's; here
  they are \<open>chunk_only_response\<close> and \<open>chunks_response\<close>.
\<close>

record chunk_only_response =
  co_text :: string
  co_contextualized_text :: string
  co_meta :: dict

record chunks_response =
  co_chunks :: "chunk_only_response list"
  co_total_chunks :: int

text \<open>The loop \<^verbatim>\<open>for chunk in chunk_iter\<close> with its accumulator \<^verbatim>\<open>chunks\<close>.\<close>

fun build_chunks ::
  "'doc env \<Rightarrow> base_chunk list \<Rightarrow> chunk_only_response list
     \<Rightarrow> py_exception + chunk_only_response list" where
  "build_chunks env [] acc = Inr acc"
| "build_chunks env (c # cs) acc =
     (case contextualize env c of
        Inl e \<Rightarrow> Inl e
      | Inr ct \<Rightarrow>
          (case meta_dict (chunk_meta c) of
             Inl e \<Rightarrow> Inl e
           | Inr m \<Rightarrow>
               build_chunks env cs
                 (acc @ [\<lparr>co_text = chunk_text c, co_contextualized_text = ct,
                          co_meta = m\<rparr>])))"

definition convert_and_chunk ::
  "'doc env \<Rightarrow> string \<Rightarrow> world \<Rightarrow> (py_exception + chunk_only_response list) \<times> world"
  where
  "convert_and_chunk env path w =
     (let w1 = log_event (Convert path) w in
      case convert env (files w) path of
        Inl e \<Rightarrow> (Inl e, w1)
      | Inr doc \<Rightarrow>
          (let w2 = log_event Chunk w1 in
           case build_chunks env (fst (chunk env doc)) [] of
             Inl e \<Rightarrow> (Inl e, w2)
           | Inr cs \<Rightarrow>
               (case snd (chunk env doc) of
                  Some e \<Rightarrow> (Inl e, w2)
                | None \<Rightarrow> (Inr cs, w2))))"

definition try_body_chunks ::
  "'doc env \<Rightarrow> upload_file \<Rightarrow> world
     \<Rightarrow> (py_exception + chunks_response) \<times> string option \<times> world" where
  "try_body_chunks env file w =
     (case named_temporary_file env of
        Inl e \<Rightarrow> (Inl e, None, w)
      | Inr name \<Rightarrow>
          (let w1 = log_event (TmpCreate name) (w\<lparr>files := (files w)(name \<mapsto> [])\<rparr>) in
           case read file of
             Inl e \<Rightarrow> (Inl e, None, w1)
           | Inr content \<Rightarrow>
               (let w2 = w1\<lparr>files := (files w1)(name \<mapsto> content)\<rparr> in
                case convert_and_chunk env name w2 of
                  (Inl e, w3) \<Rightarrow> (Inl e, Some name, w3)
                | (Inr cs, w3) \<Rightarrow>
                    (Inr \<lparr>co_chunks = cs, co_total_chunks = int (length cs)\<rparr>,
                     Some name, cleanup (Some name) w3))))"

definition extract_pdf_chunks ::
  "'doc env \<Rightarrow> upload_file \<Rightarrow> world \<Rightarrow> (http_error + chunks_response) \<times> world" where
  "extract_pdf_chunks env file w =
     (if not_pdf file then (Inl (HTTPException 400 ''Only PDF files are supported''), w)
      else
        (case get_document_converter env of
           Some e \<Rightarrow> (Inl (Unhandled e), w)
         | None \<Rightarrow>
        (case get_chunker env of
           Some e \<Rightarrow> (Inl (Unhandled e), w)
         | None \<Rightarrow>
        (case try_body_chunks env file w of
           (Inr resp, tmp_file_path, w') \<Rightarrow> (Inr resp, w')
         | (Inl e, tmp_file_path, w') \<Rightarrow>
             (Inl (HTTPException 500 (''Error processing PDF: '' @ py_str e)),
              cleanup tmp_file_path w')))))"

section \<open>The batch scripts\<close>


datatype line = NoPdfFound | Found nat | Converting string | Saved string
  | ErrorConverting string string | Complete string
  | ChunkHeader nat | ChunkText string | Contextualized string | Blank

datatype batch_event = Print line | WriteText string string

record batch_world =
  disk :: "string \<rightharpoonup> string"
  out :: "batch_event list"



subsection \<open>pdf-ingestion-service/ingestion.py\<close>





subsection \<open>pdf-ingestion/ingestion.py\<close>






section \<open>The contextualizer\<close>

text \<open>
  Modelled from the spec: the Contextualizer (\<^verbatim>\<open>HierarchicalChunker.contextualize\<close> of
  docling-core, called by both services but not part of the sources). Section 4.3: the
  output is the chunk's heading trail, rendered root to leaf with one heading per line
  and skipped entirely when empty, followed by the chunk's raw text; the end-to-end
  example of section 8 gives the heading, a newline, then the text.
\<close>

fun heading_trail :: "(string \<times> nat) list \<Rightarrow> string" where
  "heading_trail [] = []"
| "heading_trail ((h, level) # hs) = h @ [CHR 0x0A] @ heading_trail hs"

definition spec_contextualize :: "base_chunk \<Rightarrow> string" where
  "spec_contextualize c = heading_trail (ancestors c) @ chunk_text c"

section \<open>Reading the trace\<close>

text \<open>
  The embeddings requests of a trace, in order: the model name and the batch of each.
\<close>

fun embedding_calls :: "event list \<Rightarrow> (string \<times> string list) list" where
  "embedding_calls [] = []"
| "embedding_calls (EmbeddingsCreate m xs # evs) = (m, xs) # embedding_calls evs"
| "embedding_calls (ev # evs) = embedding_calls evs"







section \<open>Concrete inputs\<close>

text \<open>
  A two-paragraph document under one heading, an environment whose converter reads the
  staged file, and variations of it, for evaluating the handlers.
\<close>

definition hello_chunk :: base_chunk where
  "hello_chunk = \<lparr>chunk_text = ''Hello world.'', ancestors = [(''Introduction'', 1)],
                   chunk_meta = \<lparr>export_json_dict = None\<rparr>\<rparr>"

definition second_chunk :: base_chunk where
  "second_chunk = \<lparr>chunk_text = ''Second paragraph.'', ancestors = [(''Introduction'', 1)],
                    chunk_meta = \<lparr>export_json_dict = Some (Inr [(''page'', JNum 2)])\<rparr>\<rparr>"

definition demo_env :: "bytes env" where
  "demo_env =
     \<lparr>get_document_converter = None, get_chunker = None, get_openai_client = None,
      named_temporary_file = Inr ''/tmp/tmpk3.pdf'',
      convert = (\<lambda>fs p. case fs p of
                   None \<Rightarrow> Inl (Raised ''no such file'')
                 | Some b \<Rightarrow> if b = [] then Inl (Raised ''not a PDF'') else Inr b),
      export_to_text = (\<lambda>d. Inr (if d = ''%PDF-blank'' then [] else ''Introduction'')),
      chunk = (\<lambda>d. if d = ''%PDF-blank'' then ([], None)
                    else ([hello_chunk, second_chunk], None)),
      contextualize = (\<lambda>c. Inr (''## '' @ chunk_text c)),
      embeddings_create = (\<lambda>m xs. Inr (map (\<lambda>x. [real (length x), 1]) xs))\<rparr>"

definition surplus_env :: "bytes env" where
  "surplus_env =
     demo_env\<lparr>embeddings_create := (\<lambda>m xs. Inr (map (\<lambda>x. [real (length x), 1]) xs @ [[0, 0]]))\<rparr>"

definition short_env :: "bytes env" where
  "short_env =
     demo_env\<lparr>embeddings_create := (\<lambda>m xs. Inr (map (\<lambda>x. [real (length x), 1]) (tl xs)))\<rparr>"

definition strict_env :: "bytes env" where
  "strict_env =
     demo_env\<lparr>embeddings_create :=
       (\<lambda>m xs. if xs = [] then Inl (Raised ''input must not be empty'')
                else Inr (map (\<lambda>x. [real (length x), 1]) xs))\<rparr>"

definition spec_env :: "bytes env" where
  "spec_env = demo_env\<lparr>contextualize := (\<lambda>c. Inr (spec_contextualize c))\<rparr>"

definition demo_upload :: upload_file where
  "demo_upload = \<lparr>filename = Some ''rules.pdf'', read = Inr ''%PDF-1.7''\<rparr>"

definition blank_upload :: upload_file where
  "blank_upload = \<lparr>filename = Some ''blank.pdf'', read = Inr ''%PDF-blank''\<rparr>"

definition broken_upload :: upload_file where
  "broken_upload = \<lparr>filename = Some ''rules.pdf'', read = Inl (Raised ''connection lost'')\<rparr>"

definition text_upload :: upload_file where
  "text_upload = \<lparr>filename = Some ''notes.txt'', read = Inr ''plain text''\<rparr>"

definition empty_world :: world where
  "empty_world = \<lparr>files = Map.empty, trace = []\<rparr>"





section \<open>The loops of the embedding service\<close>

text \<open>
  A successful run of the first loop appends one record per chunk, in order, numbered
  from the counter on; the second loop succeeds exactly when the returned list is long
  enough, and then pairs records and vectors by position.
\<close>

lemma collect_chunks_Inr:
  "collect_chunks env idx cs cd ts = Inr (cd', ts') \<Longrightarrow>
     \<exists>new. cd' = cd @ new \<and> ts' = ts @ map info_contextualized_text new
        \<and> map info_index new = map int [idx..<idx + length cs]
        \<and> map info_text new = map chunk_text cs
        \<and> map (\<lambda>r. Inr (info_contextualized_text r)) new = map (contextualize env) cs
        \<and> map (\<lambda>r. Inr (info_meta r)) new = map (\<lambda>c. meta_dict (chunk_meta c)) cs"
proof (induction cs arbitrary: idx cd ts)
  case Nil
  then show ?case by simp
next
  case (Cons c cs)
  from Cons.prems obtain ct m where
    ct: "contextualize env c = Inr ct" and m: "meta_dict (chunk_meta c) = Inr m"
    and rec: "collect_chunks env (Suc idx) cs
                (cd @ [\<lparr>info_text = chunk_text c, info_contextualized_text = ct,
                         info_meta = m, info_index = int idx\<rparr>]) (ts @ [ct]) = Inr (cd', ts')"
    by (auto split: sum.splits)
  from Cons.IH [OF rec] obtain new where
    new: "cd' = (cd @ [\<lparr>info_text = chunk_text c, info_contextualized_text = ct,
                         info_meta = m, info_index = int idx\<rparr>]) @ new"
      "ts' = (ts @ [ct]) @ map info_contextualized_text new"
      "map info_index new = map int [Suc idx..<Suc idx + length cs]"
      "map info_text new = map chunk_text cs"
      "map (\<lambda>r. Inr (info_contextualized_text r)) new = map (contextualize env) cs"
      "map (\<lambda>r. Inr (info_meta r)) new = map (\<lambda>c. meta_dict (chunk_meta c)) cs"
    by blast
  let ?x = "\<lparr>info_text = chunk_text c, info_contextualized_text = ct,
                         info_meta = m, info_index = int idx\<rparr>"
  have upt: "[idx..<idx + length (c # cs)] = idx # [Suc idx..<Suc idx + length cs]"
    by (simp del: upt_Suc add: upt_conv_Cons)
  have "map info_index (?x # new) = map int [idx..<idx + length (c # cs)]"
    unfolding upt using new(3) by simp
  with new ct m show ?case
    by (intro exI [of _ "?x # new"]) simp
qed

lemma attach_embeddings_eq:
  "i \<le> length data \<Longrightarrow>
   attach_embeddings data i infos acc =
     (if i + length infos \<le> length data
      then Inr (acc @ map2 (\<lambda>ci v. \<lparr>cr_text = info_text ci,
                      contextualized_text = info_contextualized_text ci,
                      embedding = v,
                      index = info_index ci,
                      meta = info_meta ci\<rparr>) infos (drop i data))
      else Inl IndexError)"
proof (induction infos arbitrary: i acc)
  case Nil
  then show ?case by simp
next
  case (Cons ci rest)
  show ?case
  proof (cases "i < length data")
    case True
    then have d: "drop i data = data ! i # drop (Suc i) data"
      by (simp add: Cons_nth_drop_Suc)
    have le: "i + length (ci # rest) \<le> length data \<longleftrightarrow> Suc i + length rest \<le> length data"
      by simp
    from True have "Suc i \<le> length data" by simp
    note IH = Cons.IH [OF this]
    show ?thesis
      unfolding le d using True by (simp add: IH)
  next
    case False
    then show ?thesis by simp
  qed
qed


lemma convert_and_embed_Inr:
  assumes "convert_and_embed env path w = (Inr (cs, text), w')"
  shows "\<exists>doc cd ts data.
           convert env (files w) path = Inr doc \<and> export_to_text env doc = Inr text
         \<and> collect_chunks env 0 (fst (chunk env doc)) [] [] = Inr (cd, ts)
         \<and> snd (chunk env doc) = None
         \<and> embeddings_create env ''text-embedding-3-small'' ts = Inr data
         \<and> attach_embeddings data 0 cd [] = Inr cs
         \<and> files w' = files w
         \<and> trace w' = trace w @ [Convert path, ExportToText, Chunk,
                                   EmbeddingsCreate ''text-embedding-3-small'' ts]"
  using assms
  by (auto simp: convert_and_embed_def log_event_def Let_def
           split: sum.splits option.splits prod.splits)

lemma process_pdf_document_Inr:
  assumes "process_pdf_document env file w = (Inr resp, w')"
  shows "\<exists>name content doc cd ts data.
           \<not> not_pdf file \<and> named_temporary_file env = Inr name \<and> read file = Inr content
         \<and> convert env ((files w)(name \<mapsto> content)) name = Inr doc
         \<and> export_to_text env doc = Inr (full_text resp)
         \<and> collect_chunks env 0 (fst (chunk env doc)) [] [] = Inr (cd, ts)
         \<and> snd (chunk env doc) = None
         \<and> embeddings_create env ''text-embedding-3-small'' ts = Inr data
         \<and> attach_embeddings data 0 cd [] = Inr (chunks resp)
         \<and> total_chunks resp = int (length (chunks resp))
         \<and> trace w' = trace w @ [TmpCreate name, Convert name, ExportToText, Chunk,
                                   EmbeddingsCreate ''text-embedding-3-small'' ts]
                         @ (if name = [] then [] else [Unlink name])"
proof -
  from assms obtain name content cs ftext w3 where
    a: "\<not> not_pdf file" "named_temporary_file env = Inr name" "read file = Inr content"
    and b: "convert_and_embed env name
              (log_event (TmpCreate name) (w\<lparr>files := (files w)(name \<mapsto> [])\<rparr>)
                 \<lparr>files := (files (log_event (TmpCreate name)
                     (w\<lparr>files := (files w)(name \<mapsto> [])\<rparr>)))(name \<mapsto> content)\<rparr>)
            = (Inr (cs, ftext), w3)"
    and c: "resp = \<lparr>chunks = cs, total_chunks = int (length cs), full_text = ftext\<rparr>"
           "w' = cleanup (Some name) w3"
    by (auto simp: process_pdf_document_def try_body_def Let_def
             split: if_splits sum.splits option.splits prod.splits)
  from convert_and_embed_Inr [OF b] a c show ?thesis
    by (auto simp: log_event_def cleanup_def)
qed

lemmas handler_defs = process_pdf_document_def try_body_def convert_and_embed_def
  extract_pdf_chunks_def try_body_chunks_def convert_and_chunk_def
  log_event_def cleanup_def not_pdf_def endswith_def meta_dict_def Let_def

lemmas demo_defs = demo_env_def demo_upload_def empty_world_def hello_chunk_def
  second_chunk_def surplus_env_def short_env_def spec_env_def blank_upload_def
  broken_upload_def text_upload_def

lemma embedding_calls_append:
  "embedding_calls (xs @ ys) = embedding_calls xs @ embedding_calls ys"
  by (induction xs rule: embedding_calls.induct) simp_all

lemma map2_left: "length xs \<le> length ys \<Longrightarrow> map2 (\<lambda>x y. h x) xs ys = map h xs"
proof (induction xs arbitrary: ys)
  case Nil
  then show ?case by simp
next
  case (Cons x xs)
  then show ?case by (cases ys) auto
qed

lemma map2_right: "length xs \<le> length ys \<Longrightarrow> map2 (\<lambda>x y. y) xs ys = take (length xs) ys"
proof (induction xs arbitrary: ys)
  case Nil
  then show ?case by simp
next
  case (Cons x xs)
  then show ?case by (cases ys) auto
qed

lemma attach_embeddings_Inr:
  assumes "attach_embeddings data 0 cd [] = Inr cs"
  shows "length cd \<le> length data" and "length cs = length cd"
    and "map cr_text cs = map info_text cd"
    and "map contextualized_text cs = map info_contextualized_text cd"
    and "map index cs = map info_index cd"
    and "map meta cs = map info_meta cd"
    and "map embedding cs = take (length cd) data"
proof -
  let ?mk = "\<lambda>ci v. \<lparr>cr_text = info_text ci,
                      contextualized_text = info_contextualized_text ci,
                      embedding = v, index = info_index ci, meta = info_meta ci\<rparr>"
  from assms show le: "length cd \<le> length data"
    by (simp add: attach_embeddings_eq split: if_splits)
  with assms have cs: "cs = map2 ?mk cd data"
    by (simp add: attach_embeddings_eq)
  from le show "length cs = length cd" by (simp add: cs)
  have "map cr_text cs = map2 (\<lambda>ci v. info_text ci) cd data"
    by (simp add: cs split_def)
  with le show "map cr_text cs = map info_text cd" by (simp add: map2_left)
  have "map contextualized_text cs = map2 (\<lambda>ci v. info_contextualized_text ci) cd data"
    by (simp add: cs split_def)
  with le show "map contextualized_text cs = map info_contextualized_text cd"
    by (simp add: map2_left)
  have "map index cs = map2 (\<lambda>ci v. info_index ci) cd data"
    by (simp add: cs split_def)
  with le show "map index cs = map info_index cd" by (simp add: map2_left)
  have "map meta cs = map2 (\<lambda>ci v. info_meta ci) cd data"
    by (simp add: cs split_def)
  with le show "map meta cs = map info_meta cd" by (simp add: map2_left)
  have "map embedding cs = map2 (\<lambda>ci v. v) cd data"
    by (simp add: cs split_def)
  with le show "map embedding cs = take (length cd) data" by (simp add: map2_right)
qed

section \<open>The handlers, forwards and backwards\<close>

text \<open>
  What a successful answer of the second service tells about the run, and what both
  handlers answer once every step before the last one has succeeded.
\<close>

lemma process_pdf_document_staged:
  assumes "\<not> not_pdf file"
    and "get_document_converter env = None" and "get_chunker env = None"
    and "get_openai_client env = None"
    and "named_temporary_file env = Inr name" and "read file = Inr content"
    and "convert env ((files w)(name \<mapsto> content)) name = Inr doc"
    and "export_to_text env doc = Inr ftext"
    and "collect_chunks env 0 (fst (chunk env doc)) [] [] = Inr (cd, ts)"
    and "snd (chunk env doc) = None"
    and "embeddings_create env ''text-embedding-3-small'' ts = Inr data"
  shows "fst (process_pdf_document env file w) =
           (case attach_embeddings data 0 cd [] of
              Inl e \<Rightarrow> Inl (HTTPException 500 (''Error processing PDF: '' @ py_str e))
            | Inr cs \<Rightarrow> Inr \<lparr>chunks = cs, total_chunks = int (length cs),
                             full_text = ftext\<rparr>)"
  using assms
  by (simp add: process_pdf_document_def try_body_def convert_and_embed_def
        log_event_def Let_def split: sum.splits)

lemma process_pdf_document_embed_raises:
  assumes "\<not> not_pdf file"
    and "get_document_converter env = None" and "get_chunker env = None"
    and "get_openai_client env = None"
    and "named_temporary_file env = Inr name" and "read file = Inr content"
    and "convert env ((files w)(name \<mapsto> content)) name = Inr doc"
    and "export_to_text env doc = Inr ftext"
    and "collect_chunks env 0 (fst (chunk env doc)) [] [] = Inr (cd, ts)"
    and "snd (chunk env doc) = None"
    and "embeddings_create env ''text-embedding-3-small'' ts = Inl e"
  shows "fst (process_pdf_document env file w) =
           Inl (HTTPException 500 (''Error processing PDF: '' @ py_str e))"
  using assms
  by (simp add: process_pdf_document_def try_body_def convert_and_embed_def
        log_event_def Let_def)

lemma build_chunks_Inr:
  "build_chunks env cs acc = Inr res \<Longrightarrow>
     \<exists>new. res = acc @ new
        \<and> map co_text new = map chunk_text cs
        \<and> map (\<lambda>r. Inr (co_contextualized_text r)) new = map (contextualize env) cs
        \<and> map (\<lambda>r. Inr (co_meta r)) new = map (\<lambda>c. meta_dict (chunk_meta c)) cs"
proof (induction cs arbitrary: acc)
  case Nil
  then show ?case by simp
next
  case (Cons c cs)
  from Cons.prems obtain ct m where
    ct: "contextualize env c = Inr ct" and m: "meta_dict (chunk_meta c) = Inr m"
    and rec: "build_chunks env cs
                (acc @ [\<lparr>co_text = chunk_text c, co_contextualized_text = ct,
                         co_meta = m\<rparr>]) = Inr res"
    by (auto split: sum.splits)
  from Cons.IH [OF rec] obtain new where
    new: "res = (acc @ [\<lparr>co_text = chunk_text c, co_contextualized_text = ct,
                          co_meta = m\<rparr>]) @ new"
      "map co_text new = map chunk_text cs"
      "map (\<lambda>r. Inr (co_contextualized_text r)) new = map (contextualize env) cs"
      "map (\<lambda>r. Inr (co_meta r)) new = map (\<lambda>c. meta_dict (chunk_meta c)) cs"
    by blast
  let ?x = "\<lparr>co_text = chunk_text c, co_contextualized_text = ct, co_meta = m\<rparr>"
  from new ct m show ?case
    by (intro exI [of _ "?x # new"]) simp
qed

lemma convert_and_chunk_Inr:
  assumes "convert_and_chunk env path w = (Inr cs, w')"
  shows "\<exists>doc. convert env (files w) path = Inr doc
         \<and> build_chunks env (fst (chunk env doc)) [] = Inr cs
         \<and> snd (chunk env doc) = None
         \<and> files w' = files w
         \<and> trace w' = trace w @ [Convert path, Chunk]"
  using assms
  by (auto simp: convert_and_chunk_def log_event_def Let_def
           split: sum.splits option.splits prod.splits)

lemma extract_pdf_chunks_Inr:
  assumes "extract_pdf_chunks env file w = (Inr resp, w')"
  shows "\<exists>name content doc.
           \<not> not_pdf file \<and> named_temporary_file env = Inr name \<and> read file = Inr content
         \<and> convert env ((files w)(name \<mapsto> content)) name = Inr doc
         \<and> build_chunks env (fst (chunk env doc)) [] = Inr (co_chunks resp)
         \<and> snd (chunk env doc) = None
         \<and> co_total_chunks resp = int (length (co_chunks resp))
         \<and> trace w' = trace w @ [TmpCreate name, Convert name, Chunk]
                         @ (if name = [] then [] else [Unlink name])"
proof -
  from assms obtain name content cs w3 where
    a: "\<not> not_pdf file" "named_temporary_file env = Inr name" "read file = Inr content"
    and b: "convert_and_chunk env name
              (log_event (TmpCreate name) (w\<lparr>files := (files w)(name \<mapsto> [])\<rparr>)
                 \<lparr>files := (files (log_event (TmpCreate name)
                     (w\<lparr>files := (files w)(name \<mapsto> [])\<rparr>)))(name \<mapsto> content)\<rparr>)
            = (Inr cs, w3)"
    and c: "resp = \<lparr>co_chunks = cs, co_total_chunks = int (length cs)\<rparr>"
           "w' = cleanup (Some name) w3"
    by (auto simp: extract_pdf_chunks_def try_body_chunks_def Let_def
             split: if_splits sum.splits option.splits prod.splits)
  from convert_and_chunk_Inr [OF b] a c show ?thesis
    by (auto simp: log_event_def cleanup_def)
qed

lemma extract_pdf_chunks_staged:
  assumes "\<not> not_pdf file"
    and "get_document_converter env = None" and "get_chunker env = None"
    and "named_temporary_file env = Inr name" and "read file = Inr content"
    and "convert env ((files w)(name \<mapsto> content)) name = Inr doc"
    and "build_chunks env (fst (chunk env doc)) [] = Inr cs"
    and "snd (chunk env doc) = None"
  shows "fst (extract_pdf_chunks env file w) =
           Inr \<lparr>co_chunks = cs, co_total_chunks = int (length cs)\<rparr>"
  using assms
  by (simp add: extract_pdf_chunks_def try_body_chunks_def convert_and_chunk_def
        log_event_def Let_def)

lemma map_eq_nth:
  assumes "map f xs = map g ys" and "i < length ys"
  shows "f (xs ! i) = g (ys ! i)"
proof -
  from assms(1) have len: "length xs = length ys" by (metis length_map)
  have "f (xs ! i) = map f xs ! i" using len assms(2) by simp
  also have "\<dots> = map g ys ! i" by (simp only: assms(1))
  also have "\<dots> = g (ys ! i)" using assms(2) by simp
  finally show ?thesis .
qed

lemma convert_and_embed_files: "files (snd (convert_and_embed env path w)) = files w"
  by (simp add: convert_and_embed_def log_event_def Let_def
        split: sum.splits option.splits prod.splits)

lemma convert_and_chunk_files: "files (snd (convert_and_chunk env path w)) = files w"
  by (simp add: convert_and_chunk_def log_event_def Let_def
        split: sum.splits option.splits prod.splits)

lemma staged_file_removed:
  assumes "\<not> not_pdf file"
    and "get_document_converter env = None" and "get_chunker env = None"
    and "get_openai_client env = None"
    and "named_temporary_file env = Inr name" and "name \<noteq> []"
    and "read file = Inr content"
  shows "files (snd (process_pdf_document env file w)) name = None"
    and "files (snd (extract_pdf_chunks env file w)) name = None"
proof -
  let ?w2 = "log_event (TmpCreate name) (w\<lparr>files := (files w)(name \<mapsto> [])\<rparr>)
               \<lparr>files := (files (log_event (TmpCreate name)
                   (w\<lparr>files := (files w)(name \<mapsto> [])\<rparr>)))(name \<mapsto> content)\<rparr>"
  obtain r w3 where r: "convert_and_embed env name ?w2 = (r, w3)" by force
  with assms show "files (snd (process_pdf_document env file w)) name = None"
    by (cases r) (auto simp: process_pdf_document_def try_body_def cleanup_def Let_def)
  obtain r' w3' where r': "convert_and_chunk env name ?w2 = (r', w3')" by force
  with assms show "files (snd (extract_pdf_chunks env file w)) name = None"
    by (cases r') (auto simp: extract_pdf_chunks_def try_body_chunks_def cleanup_def Let_def)
qed

section \<open>The batch loops\<close>











section \<open>The contextualizer of the spec\<close>

lemma sublist_spec_contextualize: "sublist (chunk_text c) (spec_contextualize c)"
  by (simp add: spec_contextualize_def)

section \<open>Runs on the concrete inputs\<close>

lemma demo_run:
  "fst (process_pdf_document demo_env demo_upload empty_world) =
     Inr \<lparr>chunks = [\<lparr>cr_text = ''Hello world.'', contextualized_text = ''## Hello world.'',
                       embedding = [15, 1], index = 0, meta = []\<rparr>,
                     \<lparr>cr_text = ''Second paragraph.'',
                       contextualized_text = ''## Second paragraph.'',
                       embedding = [20, 1], index = 1, meta = [(''page'', JNum 2)]\<rparr>],
          total_chunks = 2, full_text = ''Introduction''\<rparr>"
  by (simp add: handler_defs demo_defs)

lemma demo_chunks_run:
  "fst (extract_pdf_chunks demo_env demo_upload empty_world) =
     Inr \<lparr>co_chunks = [\<lparr>co_text = ''Hello world.'',
                            co_contextualized_text = ''## Hello world.'', co_meta = []\<rparr>,
                          \<lparr>co_text = ''Second paragraph.'',
                            co_contextualized_text = ''## Second paragraph.'',
                            co_meta = [(''page'', JNum 2)]\<rparr>],
          co_total_chunks = 2\<rparr>"
  by (simp add: handler_defs demo_defs)

lemma spec_run:
  "fst (process_pdf_document spec_env demo_upload empty_world) =
     Inr \<lparr>chunks = [\<lparr>cr_text = ''Hello world.'',
                       contextualized_text = ''Introduction'' @ [CHR 0x0A] @ ''Hello world.'',
                       embedding = [25, 1], index = 0, meta = []\<rparr>,
                     \<lparr>cr_text = ''Second paragraph.'',
                       contextualized_text =
                         ''Introduction'' @ [CHR 0x0A] @ ''Second paragraph.'',
                       embedding = [30, 1], index = 1, meta = [(''page'', JNum 2)]\<rparr>],
          total_chunks = 2, full_text = ''Introduction''\<rparr>"
  by (simp add: handler_defs demo_defs spec_contextualize_def)

lemma spec_chunks_run:
  "fst (extract_pdf_chunks spec_env demo_upload empty_world) =
     Inr \<lparr>co_chunks = [\<lparr>co_text = ''Hello world.'',
                            co_contextualized_text =
                              ''Introduction'' @ [CHR 0x0A] @ ''Hello world.'',
                            co_meta = []\<rparr>,
                          \<lparr>co_text = ''Second paragraph.'',
                            co_contextualized_text =
                              ''Introduction'' @ [CHR 0x0A] @ ''Second paragraph.'',
                            co_meta = [(''page'', JNum 2)]\<rparr>],
          co_total_chunks = 2\<rparr>"
  by (simp add: handler_defs demo_defs spec_contextualize_def)

section \<open>Properties of the embedding service\<close>

text \<open>
  C2. Whenever \<^verbatim>\<open>process_pdf_document\<close> answers with a document, the index fields of
  its chunk records are 0, 1, 2, ... up to the number of records, without a gap, and the
  record at position i is the one of the i-th chunk the chunker yielded for the converted
  upload: there are as many records as chunks, with the chunks' texts in iteration order.
\<close>

theorem chunk_indices_contiguous:
  assumes "process_pdf_document env file w = (Inr resp, w')"
    and "named_temporary_file env = Inr name" and "read file = Inr content"
    and "convert env ((files w)(name \<mapsto> content)) name = Inr doc"
  shows "map index (chunks resp) = map int [0..<length (chunks resp)]
       \<and> length (chunks resp) = length (fst (chunk env doc))
       \<and> map cr_text (chunks resp) = map chunk_text (fst (chunk env doc))"
proof -
  from process_pdf_document_Inr [OF assms(1)] assms(2-4) obtain cd ts data where
    coll: "collect_chunks env 0 (fst (chunk env doc)) [] [] = Inr (cd, ts)"
    and att: "attach_embeddings data 0 cd [] = Inr (chunks resp)"
    by auto
  from collect_chunks_Inr [OF coll] have
    idx: "map info_index cd = map int [0..<length (fst (chunk env doc))]"
    and tx: "map info_text cd = map chunk_text (fst (chunk env doc))"
    by auto
  from tx have len: "length cd = length (fst (chunk env doc))"
    by (metis length_map)
  from attach_embeddings_Inr [OF att] idx tx len show ?thesis by simp
qed

theorem chunk_indices_contiguous_witness:
  "map index (chunks (projr (fst (process_pdf_document demo_env demo_upload empty_world))))
     = [0, 1]
   \<and> map cr_text (chunks (projr (fst (process_pdf_document demo_env demo_upload empty_world))))
     = [''Hello world.'', ''Second paragraph.'']"
proof -
  let ?run = "process_pdf_document demo_env demo_upload empty_world"
  have run: "?run = (Inr (projr (fst ?run)), snd ?run)"
    by (simp add: prod_eq_iff demo_run)
  have tmp: "named_temporary_file demo_env = Inr ''/tmp/tmpk3.pdf''"
    and rd: "read demo_upload = Inr ''%PDF-1.7''"
    and conv: "convert demo_env ((files empty_world)(''/tmp/tmpk3.pdf'' \<mapsto> ''%PDF-1.7''))
                 ''/tmp/tmpk3.pdf'' = Inr ''%PDF-1.7''"
    by (simp_all add: demo_defs)
  from chunk_indices_contiguous [OF run tmp rd conv] show ?thesis
    by (simp add: demo_run)
qed

text \<open>
  C9. Whenever \<^verbatim>\<open>process_pdf_document\<close> answers with a document, the run has added
  exactly one embeddings request to the trace, for the model text-embedding-3-small and
  with the contextualized texts of all chunk records, in order, as its batch; the client
  has returned at least as many vectors as there are records, and the embeddings of the
  records, in order, are the first vectors of the returned list: the record at position
  i carries the i-th vector.
\<close>

theorem embeddings_attached_by_position:
  assumes "process_pdf_document env file w = (Inr resp, w')"
  shows "\<exists>data. embeddings_create env ''text-embedding-3-small''
                  (map contextualized_text (chunks resp)) = Inr data
           \<and> embedding_calls (trace w') = embedding_calls (trace w)
                @ [(''text-embedding-3-small'', map contextualized_text (chunks resp))]
           \<and> length (chunks resp) \<le> length data
           \<and> map embedding (chunks resp) = take (length (chunks resp)) data"
proof -
  from process_pdf_document_Inr [OF assms] obtain name doc cd ts data where
    coll: "collect_chunks env 0 (fst (chunk env doc)) [] [] = Inr (cd, ts)"
    and emb: "embeddings_create env ''text-embedding-3-small'' ts = Inr data"
    and att: "attach_embeddings data 0 cd [] = Inr (chunks resp)"
    and tr: "trace w' = trace w @ [TmpCreate name, Convert name, ExportToText, Chunk,
                                   EmbeddingsCreate ''text-embedding-3-small'' ts]
                         @ (if name = [] then [] else [Unlink name])"
    by blast
  from collect_chunks_Inr [OF coll] have ts: "ts = map info_contextualized_text cd"
    by auto
  note a = attach_embeddings_Inr [OF att]
  from ts a(4) have ts': "ts = map contextualized_text (chunks resp)" by simp
  from tr have "embedding_calls (trace w') = embedding_calls (trace w)
                  @ [(''text-embedding-3-small'', ts)]"
    by (simp add: embedding_calls_append)
  with emb a(1,2,7) show ?thesis unfolding ts' [symmetric] by auto
qed

theorem embeddings_attached_by_position_witness:
  "embedding_calls (trace (snd (process_pdf_document demo_env demo_upload empty_world)))
     = [(''text-embedding-3-small'', [''## Hello world.'', ''## Second paragraph.''])]
   \<and> map embedding (chunks (projr (fst (process_pdf_document demo_env demo_upload empty_world))))
     = [[15, 1], [20, 1]]"
proof -
  let ?run = "process_pdf_document demo_env demo_upload empty_world"
  have run: "?run = (Inr (projr (fst ?run)), snd ?run)"
    by (simp add: prod_eq_iff demo_run)
  have tr0: "trace empty_world = []"
    by (simp add: empty_world_def)
  from embeddings_attached_by_position [OF run] show ?thesis
    by (auto simp add: demo_run tr0)
qed

text \<open>
  C1 (as the code has it). Let a run reach the embeddings request: the upload is a PDF by
  name, is staged and converted, its text is exported, the first loop has collected the
  contextualized strings \<open>ts\<close>, and the client has returned the vector list \<open>data\<close>.
  If the client returned fewer vectors than strings, the handler fails as a whole: the
  answer is HTTP 500 with the detail of the index error, and no chunk record is
  returned. If it returned more vectors than strings, the handler does not fail: it
  answers with one record per string, carrying the first vectors of the list by
  position, and the vectors beyond them are dropped. There is no error of its own for
  the mismatch.
\<close>

theorem embedding_count_mismatch:
  assumes "\<not> not_pdf file"
    and "get_document_converter env = None" and "get_chunker env = None"
    and "get_openai_client env = None"
    and "named_temporary_file env = Inr name" and "read file = Inr content"
    and "convert env ((files w)(name \<mapsto> content)) name = Inr doc"
    and "export_to_text env doc = Inr ftext"
    and "collect_chunks env 0 (fst (chunk env doc)) [] [] = Inr (cd, ts)"
    and "snd (chunk env doc) = None"
    and "embeddings_create env ''text-embedding-3-small'' ts = Inr data"
  shows "(length data < length ts \<longrightarrow>
            fst (process_pdf_document env file w) =
              Inl (HTTPException 500 ''Error processing PDF: list index out of range''))
       \<and> (length ts < length data \<longrightarrow>
            (\<exists>resp. fst (process_pdf_document env file w) = Inr resp
                \<and> length (chunks resp) = length ts
                \<and> map contextualized_text (chunks resp) = ts
                \<and> map embedding (chunks resp) = take (length ts) data))"
proof -
  note run = process_pdf_document_staged [OF assms]
  from collect_chunks_Inr [OF assms(9)] have ts: "ts = map info_contextualized_text cd"
    by auto
  then have len: "length ts = length cd" by simp
  show ?thesis
  proof (intro conjI impI)
    assume "length data < length ts"
    with len have "attach_embeddings data 0 cd [] = Inl IndexError"
      by (simp add: attach_embeddings_eq)
    with run show "fst (process_pdf_document env file w) =
              Inl (HTTPException 500 ''Error processing PDF: list index out of range'')"
      by simp
  next
    assume "length ts < length data"
    with len obtain cs where att: "attach_embeddings data 0 cd [] = Inr cs"
      by (simp add: attach_embeddings_eq)
    note a = attach_embeddings_Inr [OF att]
    from run att have "fst (process_pdf_document env file w) =
        Inr \<lparr>chunks = cs, total_chunks = int (length cs), full_text = ftext\<rparr>"
      by simp
    with a len ts show "\<exists>resp. fst (process_pdf_document env file w) = Inr resp
                \<and> length (chunks resp) = length ts
                \<and> map contextualized_text (chunks resp) = ts
                \<and> map embedding (chunks resp) = take (length ts) data"
      by simp
  qed
qed


theorem embedding_count_mismatch_witness:
  "fst (process_pdf_document short_env demo_upload empty_world) =
     Inl (HTTPException 500 ''Error processing PDF: list index out of range'')
   \<and> map embedding
         (chunks (projr (fst (process_pdf_document surplus_env demo_upload empty_world))))
       = take 2 [[15, 1], [20, 1], [0, 0]]"
proof -
  let ?cd = "[\<lparr>info_text = ''Hello world.'', info_contextualized_text = ''## Hello world.'',
                 info_meta = [], info_index = 0\<rparr>,
               \<lparr>info_text = ''Second paragraph.'',
                 info_contextualized_text = ''## Second paragraph.'',
                 info_meta = [(''page'', JNum 2)], info_index = 1\<rparr>]"
  let ?ts = "[''## Hello world.'', ''## Second paragraph.'']"
  have up: "\<not> not_pdf demo_upload" "read demo_upload = Inr ''%PDF-1.7''"
    by (simp_all add: demo_upload_def not_pdf_def endswith_def)
  have short:
    "get_document_converter short_env = None" "get_chunker short_env = None"
    "get_openai_client short_env = None"
    "named_temporary_file short_env = Inr ''/tmp/tmpk3.pdf''"
    "convert short_env ((files empty_world)(''/tmp/tmpk3.pdf'' \<mapsto> ''%PDF-1.7''))
       ''/tmp/tmpk3.pdf'' = Inr ''%PDF-1.7''"
    "export_to_text short_env ''%PDF-1.7'' = Inr ''Introduction''"
    "fst (chunk short_env ''%PDF-1.7'') = [hello_chunk, second_chunk]"
    "snd (chunk short_env ''%PDF-1.7'') = None"
    "contextualize short_env = (\<lambda>c. Inr (''## '' @ chunk_text c))"
    "embeddings_create short_env ''text-embedding-3-small'' ?ts = Inr [[20, 1]]"
    by (simp_all add: short_env_def demo_env_def)
  have short_coll: "collect_chunks short_env 0 (fst (chunk short_env ''%PDF-1.7'')) [] []
                      = Inr (?cd, ?ts)"
    by (simp add: short(7,9) hello_chunk_def second_chunk_def meta_dict_def)
  have surplus:
    "get_document_converter surplus_env = None" "get_chunker surplus_env = None"
    "get_openai_client surplus_env = None"
    "named_temporary_file surplus_env = Inr ''/tmp/tmpk3.pdf''"
    "convert surplus_env ((files empty_world)(''/tmp/tmpk3.pdf'' \<mapsto> ''%PDF-1.7''))
       ''/tmp/tmpk3.pdf'' = Inr ''%PDF-1.7''"
    "export_to_text surplus_env ''%PDF-1.7'' = Inr ''Introduction''"
    "fst (chunk surplus_env ''%PDF-1.7'') = [hello_chunk, second_chunk]"
    "snd (chunk surplus_env ''%PDF-1.7'') = None"
    "contextualize surplus_env = (\<lambda>c. Inr (''## '' @ chunk_text c))"
    "embeddings_create surplus_env ''text-embedding-3-small'' ?ts
       = Inr [[15, 1], [20, 1], [0, 0]]"
    by (simp_all add: surplus_env_def demo_env_def)
  have surplus_coll:
    "collect_chunks surplus_env 0 (fst (chunk surplus_env ''%PDF-1.7'')) [] []
       = Inr (?cd, ?ts)"
    by (simp add: surplus(7,9) hello_chunk_def second_chunk_def meta_dict_def)
  from embedding_count_mismatch [OF up(1) short(1-4) up(2) short(5,6) short_coll
      short(8,10)]
  have one: "fst (process_pdf_document short_env demo_upload empty_world) =
     Inl (HTTPException 500 ''Error processing PDF: list index out of range'')"
    by simp
  from embedding_count_mismatch [OF up(1) surplus(1-4) up(2) surplus(5,6) surplus_coll
      surplus(8,10)]
  have two: "map embedding
         (chunks (projr (fst (process_pdf_document surplus_env demo_upload empty_world))))
       = take 2 [[15, 1], [20, 1], [0, 0]]"
    by auto
  from one two show ?thesis by blast
qed

text \<open>
  The claim C1 as stated fails: here the client answers the batch of two strings with
  three vectors, and the handler answers with both records and the first two vectors.
\<close>

theorem surplus_vectors_accepted:
  "embedding_calls (trace (snd (process_pdf_document surplus_env demo_upload empty_world)))
     = [(''text-embedding-3-small'', [''## Hello world.'', ''## Second paragraph.''])]
   \<and> embeddings_create surplus_env ''text-embedding-3-small''
         [''## Hello world.'', ''## Second paragraph.'']
       = Inr [[15, 1], [20, 1], [0, 0]]
   \<and> fst (process_pdf_document surplus_env demo_upload empty_world) =
       Inr \<lparr>chunks = [\<lparr>cr_text = ''Hello world.'',
                         contextualized_text = ''## Hello world.'',
                         embedding = [15, 1], index = 0, meta = []\<rparr>,
                       \<lparr>cr_text = ''Second paragraph.'',
                         contextualized_text = ''## Second paragraph.'',
                         embedding = [20, 1], index = 1, meta = [(''page'', JNum 2)]\<rparr>],
            total_chunks = 2, full_text = ''Introduction''\<rparr>"
  by (simp add: handler_defs demo_defs)

section \<open>Properties of both services\<close>

text \<open>
  C4 (as the code has it). Let the upload be a PDF by name that is staged and converted,
  and let the chunker yield no chunk for the converted document. Then
  \<^verbatim>\<open>extract_pdf_chunks\<close> answers with a document: an empty chunk list and a total
  of 0. \<^verbatim>\<open>process_pdf_document\<close>, once its client is built and the text exported, still
  sends the empty batch to the embeddings client: when that call returns, whatever it
  returns, the answer is a document with an empty chunk list, a total of 0 and the
  exported text; when it raises, the answer is HTTP 500 with the message of the
  exception.
\<close>

theorem empty_document_result:
  assumes "\<not> not_pdf file"
    and "get_document_converter env = None" and "get_chunker env = None"
    and "named_temporary_file env = Inr name" and "read file = Inr content"
    and "convert env ((files w)(name \<mapsto> content)) name = Inr doc"
    and "chunk env doc = ([], None)"
  shows "fst (extract_pdf_chunks env file w) = Inr \<lparr>co_chunks = [], co_total_chunks = 0\<rparr>
       \<and> (get_openai_client env = None \<and> export_to_text env doc = Inr ftext \<longrightarrow>
            fst (process_pdf_document env file w) =
              (case embeddings_create env ''text-embedding-3-small'' [] of
                 Inr data \<Rightarrow> Inr \<lparr>chunks = [], total_chunks = 0, full_text = ftext\<rparr>
               | Inl e \<Rightarrow> Inl (HTTPException 500 (''Error processing PDF: '' @ py_str e))))"
proof (intro conjI impI)
  from assms(7) have coll: "collect_chunks env 0 (fst (chunk env doc)) [] [] = Inr ([], [])"
    and bld: "build_chunks env (fst (chunk env doc)) [] = Inr []"
    and fin: "snd (chunk env doc) = None"
    by simp_all
  from extract_pdf_chunks_staged [OF assms(1-6) bld fin]
  show "fst (extract_pdf_chunks env file w) = Inr \<lparr>co_chunks = [], co_total_chunks = 0\<rparr>"
    by simp
  assume a: "get_openai_client env = None \<and> export_to_text env doc = Inr ftext"
  then have cl: "get_openai_client env = None" and ex: "export_to_text env doc = Inr ftext"
    by simp_all
  show "fst (process_pdf_document env file w) =
              (case embeddings_create env ''text-embedding-3-small'' [] of
                 Inr data \<Rightarrow> Inr \<lparr>chunks = [], total_chunks = 0, full_text = ftext\<rparr>
               | Inl e \<Rightarrow> Inl (HTTPException 500 (''Error processing PDF: '' @ py_str e)))"
  proof (cases "embeddings_create env ''text-embedding-3-small'' []")
    case (Inl e)
    from process_pdf_document_embed_raises [OF assms(1-3) cl assms(4-6) ex coll fin Inl] Inl
    show ?thesis by simp
  next
    case (Inr data)
    from process_pdf_document_staged [OF assms(1-3) cl assms(4-6) ex coll fin Inr] Inr
    show ?thesis by simp
  qed
qed

theorem empty_document_result_witness:
  "fst (extract_pdf_chunks strict_env blank_upload empty_world) =
     Inr \<lparr>co_chunks = [], co_total_chunks = 0\<rparr>
   \<and> fst (process_pdf_document demo_env blank_upload empty_world) =
     Inr \<lparr>chunks = [], total_chunks = 0, full_text = []\<rparr>
   \<and> fst (process_pdf_document strict_env blank_upload empty_world) =
     Inl (HTTPException 500 ''Error processing PDF: input must not be empty'')"
proof -
  have up: "\<not> not_pdf blank_upload" "read blank_upload = Inr ''%PDF-blank''"
    by (simp_all add: blank_upload_def not_pdf_def endswith_def)
  have d:
    "get_document_converter demo_env = None" "get_chunker demo_env = None"
    "named_temporary_file demo_env = Inr ''/tmp/tmpk3.pdf''"
    "convert demo_env ((files empty_world)(''/tmp/tmpk3.pdf'' \<mapsto> ''%PDF-blank''))
       ''/tmp/tmpk3.pdf'' = Inr ''%PDF-blank''"
    "chunk demo_env ''%PDF-blank'' = ([], None)"
    "get_openai_client demo_env = None"
    "export_to_text demo_env ''%PDF-blank'' = Inr []"
    "embeddings_create demo_env ''text-embedding-3-small'' [] = Inr []"
    by (simp_all add: demo_env_def)
  have s:
    "get_document_converter strict_env = None" "get_chunker strict_env = None"
    "named_temporary_file strict_env = Inr ''/tmp/tmpk3.pdf''"
    "convert strict_env ((files empty_world)(''/tmp/tmpk3.pdf'' \<mapsto> ''%PDF-blank''))
       ''/tmp/tmpk3.pdf'' = Inr ''%PDF-blank''"
    "chunk strict_env ''%PDF-blank'' = ([], None)"
    "get_openai_client strict_env = None"
    "export_to_text strict_env ''%PDF-blank'' = Inr []"
    "embeddings_create strict_env ''text-embedding-3-small'' []
       = Inl (Raised ''input must not be empty'')"
    by (simp_all add: strict_env_def demo_env_def)
  from empty_document_result [OF up(1) d(1-3) up(2) d(4,5), of "[]"] d(6-8)
  have one: "fst (process_pdf_document demo_env blank_upload empty_world) =
     Inr \<lparr>chunks = [], total_chunks = 0, full_text = []\<rparr>"
    by simp
  from empty_document_result [OF up(1) s(1-3) up(2) s(4,5), of "[]"] s(6-8)
  have two: "fst (extract_pdf_chunks strict_env blank_upload empty_world) =
     Inr \<lparr>co_chunks = [], co_total_chunks = 0\<rparr>"
    and three: "fst (process_pdf_document strict_env blank_upload empty_world) =
     Inl (HTTPException 500 ''Error processing PDF: input must not be empty'')"
    by simp_all
  from one two three show ?thesis by blast
qed

text \<open>
  The claim C4 as stated fails for the embedding service: the upload is converted, the
  chunker yields nothing, the embeddings client refuses the empty batch, and the handler
  answers HTTP 500.
\<close>

theorem empty_batch_rejected_by_client:
  "\<not> not_pdf blank_upload
   \<and> convert strict_env ((files empty_world)(''/tmp/tmpk3.pdf'' \<mapsto> ''%PDF-blank''))
       ''/tmp/tmpk3.pdf'' = Inr ''%PDF-blank''
   \<and> chunk strict_env ''%PDF-blank'' = ([], None)
   \<and> fst (process_pdf_document strict_env blank_upload empty_world) =
       Inl (HTTPException 500 ''Error processing PDF: input must not be empty'')"
  by (simp add: handler_defs demo_defs strict_env_def)

text \<open>
  C7. When the filename of the upload is missing, empty or does not end in \<^verbatim>\<open>.pdf\<close>, both
  handlers answer HTTP 400 with the detail "Only PDF files are supported", and the world
  is the one they started in: no file has been created and the trace has no new step,
  so nothing was staged, converted, chunked or embedded.
\<close>

theorem unsupported_file_rejected:
  assumes "not_pdf file"
  shows "process_pdf_document env file w =
           (Inl (HTTPException 400 ''Only PDF files are supported''), w)
       \<and> extract_pdf_chunks env file w =
           (Inl (HTTPException 400 ''Only PDF files are supported''), w)"
  using assms by (simp add: process_pdf_document_def extract_pdf_chunks_def)

theorem unsupported_file_rejected_witness:
  "process_pdf_document demo_env text_upload empty_world =
     (Inl (HTTPException 400 ''Only PDF files are supported''), empty_world)
   \<and> extract_pdf_chunks demo_env text_upload empty_world =
     (Inl (HTTPException 400 ''Only PDF files are supported''), empty_world)"
proof -
  have "not_pdf text_upload"
    by (simp add: text_upload_def not_pdf_def endswith_def)
  from unsupported_file_rejected [OF this] show ?thesis .
qed

text \<open>
  C10. Take the i-th chunk the chunker yields for the converted upload, and let its meta
  object have no \<^verbatim>\<open>export_json_dict\<close>. Then the meta expression of the handlers
  evaluates, without raising, to the empty dictionary, and in every document either
  handler answers with, the record at position i exists and its meta field is the empty
  dictionary.
\<close>

theorem missing_export_json_dict_gives_empty_meta:
  assumes "named_temporary_file env = Inr name" and "read file = Inr content"
    and "convert env ((files w)(name \<mapsto> content)) name = Inr doc"
    and "i < length (fst (chunk env doc))"
    and "export_json_dict (chunk_meta (fst (chunk env doc) ! i)) = None"
  shows "meta_dict (chunk_meta (fst (chunk env doc) ! i)) = Inr []
       \<and> (process_pdf_document env file w = (Inr resp, w') \<longrightarrow>
            i < length (chunks resp) \<and> meta (chunks resp ! i) = [])
       \<and> (extract_pdf_chunks env file w = (Inr cresp, cw') \<longrightarrow>
            i < length (co_chunks cresp) \<and> co_meta (co_chunks cresp ! i) = [])"
proof (intro conjI impI)
  let ?cs = "fst (chunk env doc)"
  from assms(5) show md: "meta_dict (chunk_meta (?cs ! i)) = Inr []"
    by (simp add: meta_dict_def)
  {
    assume run: "process_pdf_document env file w = (Inr resp, w')"
    from process_pdf_document_Inr [OF run] assms(1-3) obtain cd ts data where
      coll: "collect_chunks env 0 ?cs [] [] = Inr (cd, ts)"
      and att: "attach_embeddings data 0 cd [] = Inr (chunks resp)"
      by auto
    from collect_chunks_Inr [OF coll] have
      m: "map (\<lambda>r. Inr (info_meta r)) cd = map (\<lambda>c. meta_dict (chunk_meta c)) ?cs"
      by auto
    then have len: "length cd = length ?cs" by (metis length_map)
    from map_eq_nth [OF m assms(4)] md have "info_meta (cd ! i) = []" by simp
    moreover note a = attach_embeddings_Inr [OF att]
    from a(2) len assms(4) show "i < length (chunks resp)" by simp
    from map_eq_nth [OF a(6)] len assms(4) have "meta (chunks resp ! i) = info_meta (cd ! i)"
      by simp
    ultimately show "meta (chunks resp ! i) = []" by simp
  }
  {
    assume run: "extract_pdf_chunks env file w = (Inr cresp, cw')"
    from extract_pdf_chunks_Inr [OF run] assms(1-3) have
      bld: "build_chunks env ?cs [] = Inr (co_chunks cresp)"
      by auto
    from build_chunks_Inr [OF bld] have
      m: "map (\<lambda>r. Inr (co_meta r)) (co_chunks cresp)
            = map (\<lambda>c. meta_dict (chunk_meta c)) ?cs"
      by auto
    then have len: "length (co_chunks cresp) = length ?cs" by (metis length_map)
    with assms(4) show "i < length (co_chunks cresp)" by simp
    from map_eq_nth [OF m assms(4)] md show "co_meta (co_chunks cresp ! i) = []" by simp
  }
qed

theorem missing_export_json_dict_gives_empty_meta_witness:
  "export_json_dict (chunk_meta hello_chunk) = None
   \<and> meta (chunks (projr (fst (process_pdf_document demo_env demo_upload empty_world))) ! 0)
       = []
   \<and> co_meta (co_chunks (projr (fst (extract_pdf_chunks demo_env demo_upload empty_world))) ! 0)
       = []"
proof -
  let ?run = "process_pdf_document demo_env demo_upload empty_world"
  let ?crun = "extract_pdf_chunks demo_env demo_upload empty_world"
  have run: "?run = (Inr (projr (fst ?run)), snd ?run)"
    by (simp add: prod_eq_iff demo_run)
  have crun: "?crun = (Inr (projr (fst ?crun)), snd ?crun)"
    by (simp add: prod_eq_iff demo_chunks_run)
  have tmp: "named_temporary_file demo_env = Inr ''/tmp/tmpk3.pdf''"
    and rd: "read demo_upload = Inr ''%PDF-1.7''"
    and conv: "convert demo_env ((files empty_world)(''/tmp/tmpk3.pdf'' \<mapsto> ''%PDF-1.7''))
                 ''/tmp/tmpk3.pdf'' = Inr ''%PDF-1.7''"
    and cs: "fst (chunk demo_env ''%PDF-1.7'') = [hello_chunk, second_chunk]"
    by (simp_all add: demo_env_def demo_upload_def empty_world_def)
  have i: "0 < length (fst (chunk demo_env ''%PDF-1.7''))"
    and none: "export_json_dict (chunk_meta (fst (chunk demo_env ''%PDF-1.7'') ! 0)) = None"
    by (simp_all add: cs hello_chunk_def)
  from missing_export_json_dict_gives_empty_meta [OF tmp rd conv i none,
      of "projr (fst ?run)" "snd ?run" "projr (fst ?crun)" "snd ?crun"] run crun
  show ?thesis by (simp add: hello_chunk_def)
qed

text \<open>
  C5 (the code at an input where the claim fails). The upload is a PDF by name, but
  reading it raises. \<^verbatim>\<open>NamedTemporaryFile(delete=False)\<close> has already created the file,
  \<^verbatim>\<open>tmp_file_path\<close> is still \<^verbatim>\<open>None\<close>, so the \<^verbatim>\<open>except\<close> clause deletes nothing: both
  handlers answer HTTP 500 and leave the temporary file on disk, with no unlink in the
  trace. Once the upload has been read and the path assigned, the file is removed
  whether the later steps return or raise an \<^verbatim>\<open>Exception\<close> (lemma
  \<open>staged_file_removed\<close>); what \<^verbatim>\<open>except Exception\<close> does not catch is not
  modelled.
\<close>

theorem temporary_file_left_when_read_fails:
  "fst (process_pdf_document demo_env broken_upload empty_world) =
     Inl (HTTPException 500 ''Error processing PDF: connection lost'')
   \<and> files (snd (process_pdf_document demo_env broken_upload empty_world)) ''/tmp/tmpk3.pdf''
       = Some []
   \<and> trace (snd (process_pdf_document demo_env broken_upload empty_world))
       = [TmpCreate ''/tmp/tmpk3.pdf'']
   \<and> fst (extract_pdf_chunks demo_env broken_upload empty_world) =
       Inl (HTTPException 500 ''Error processing PDF: connection lost'')
   \<and> files (snd (extract_pdf_chunks demo_env broken_upload empty_world)) ''/tmp/tmpk3.pdf''
       = Some []
   \<and> trace (snd (extract_pdf_chunks demo_env broken_upload empty_world))
       = [TmpCreate ''/tmp/tmpk3.pdf'']"
  by (simp add: handler_defs demo_defs)

section \<open>Properties of the batch scripts\<close>




section \<open>Properties with the contextualizer of the spec\<close>

text \<open>
  C3. With the contextualizer of the spec in place of the library call, take any document
  either handler answers with for the converted upload. It has one record per chunk the
  chunker yielded, and at every position i the record's text is the text of the i-th
  yielded chunk, its contextualized text is what the contextualizer gives for that
  chunk, and the chunk's own text is a contiguous part of (a substring of) the returned
  contextualized text: no chunk and no chunk content is dropped. In particular the text
  of every record is a substring of the record's contextualized text.
\<close>

theorem chunk_text_kept_in_contextualized_text:
  assumes "contextualize env = (\<lambda>c. Inr (spec_contextualize c))"
    and "named_temporary_file env = Inr name" and "read file = Inr content"
    and "convert env ((files w)(name \<mapsto> content)) name = Inr doc"
  shows "(process_pdf_document env file w = (Inr resp, w') \<longrightarrow>
            length (chunks resp) = length (fst (chunk env doc))
          \<and> (\<forall>i < length (fst (chunk env doc)).
                cr_text (chunks resp ! i) = chunk_text (fst (chunk env doc) ! i)
              \<and> contextualized_text (chunks resp ! i)
                  = spec_contextualize (fst (chunk env doc) ! i)
              \<and> sublist (chunk_text (fst (chunk env doc) ! i))
                  (contextualized_text (chunks resp ! i)))
          \<and> (\<forall>r \<in> set (chunks resp). sublist (cr_text r) (contextualized_text r)))
       \<and> (extract_pdf_chunks env file w = (Inr cresp, cw') \<longrightarrow>
            length (co_chunks cresp) = length (fst (chunk env doc))
          \<and> (\<forall>i < length (fst (chunk env doc)).
                co_text (co_chunks cresp ! i) = chunk_text (fst (chunk env doc) ! i)
              \<and> co_contextualized_text (co_chunks cresp ! i)
                  = spec_contextualize (fst (chunk env doc) ! i)
              \<and> sublist (chunk_text (fst (chunk env doc) ! i))
                  (co_contextualized_text (co_chunks cresp ! i)))
          \<and> (\<forall>r \<in> set (co_chunks cresp).
                sublist (co_text r) (co_contextualized_text r)))"
proof (intro conjI impI)
  let ?cs = "fst (chunk env doc)"
  {
    assume run: "process_pdf_document env file w = (Inr resp, w')"
    from process_pdf_document_Inr [OF run] assms(2-4) obtain cd ts data where
      coll: "collect_chunks env 0 ?cs [] [] = Inr (cd, ts)"
      and att: "attach_embeddings data 0 cd [] = Inr (chunks resp)"
      by auto
    from collect_chunks_Inr [OF coll] assms(1) have
      t: "map info_text cd = map chunk_text ?cs"
      and c: "map (\<lambda>r. Inr (info_contextualized_text r)) cd
                = map (\<lambda>c. Inr (spec_contextualize c) :: py_exception + string) ?cs"
      by auto
    from t have len: "length cd = length ?cs" by (metis length_map)
    note a = attach_embeddings_Inr [OF att]
    from a(2) len show n: "length (chunks resp) = length ?cs" by simp
    have pos: "cr_text (chunks resp ! i) = chunk_text (?cs ! i)
             \<and> contextualized_text (chunks resp ! i) = spec_contextualize (?cs ! i)"
      if i: "i < length ?cs" for i
    proof -
      from i len have i': "i < length cd" by simp
      from map_eq_nth [OF a(3) i'] map_eq_nth [OF t i]
      have "cr_text (chunks resp ! i) = chunk_text (?cs ! i)" by simp
      moreover from map_eq_nth [OF a(4) i'] map_eq_nth [OF c i]
      have "contextualized_text (chunks resp ! i) = spec_contextualize (?cs ! i)" by simp
      ultimately show ?thesis by simp
    qed
    then show "\<forall>i < length ?cs.
                cr_text (chunks resp ! i) = chunk_text (?cs ! i)
              \<and> contextualized_text (chunks resp ! i) = spec_contextualize (?cs ! i)
              \<and> sublist (chunk_text (?cs ! i)) (contextualized_text (chunks resp ! i))"
      by (simp add: sublist_spec_contextualize)
    show "\<forall>r \<in> set (chunks resp). sublist (cr_text r) (contextualized_text r)"
    proof
      fix r assume "r \<in> set (chunks resp)"
      then obtain i where "i < length (chunks resp)" and ri: "r = chunks resp ! i"
        by (auto simp: in_set_conv_nth)
      with n have "i < length ?cs" by simp
      from pos [OF this] show "sublist (cr_text r) (contextualized_text r)"
        by (simp add: ri sublist_spec_contextualize)
    qed
  }
  {
    assume run: "extract_pdf_chunks env file w = (Inr cresp, cw')"
    from extract_pdf_chunks_Inr [OF run] assms(2-4) have
      bld: "build_chunks env ?cs [] = Inr (co_chunks cresp)"
      by auto
    from build_chunks_Inr [OF bld] assms(1) have
      t: "map co_text (co_chunks cresp) = map chunk_text ?cs"
      and c: "map (\<lambda>r. Inr (co_contextualized_text r)) (co_chunks cresp)
                = map (\<lambda>c. Inr (spec_contextualize c) :: py_exception + string) ?cs"
      by auto
    from t show n: "length (co_chunks cresp) = length ?cs" by (metis length_map)
    have pos: "co_text (co_chunks cresp ! i) = chunk_text (?cs ! i)
             \<and> co_contextualized_text (co_chunks cresp ! i) = spec_contextualize (?cs ! i)"
      if i: "i < length ?cs" for i
    proof -
      from map_eq_nth [OF t i]
      have "co_text (co_chunks cresp ! i) = chunk_text (?cs ! i)" by simp
      moreover from map_eq_nth [OF c i]
      have "co_contextualized_text (co_chunks cresp ! i) = spec_contextualize (?cs ! i)"
        by simp
      ultimately show ?thesis by simp
    qed
    then show "\<forall>i < length ?cs.
                co_text (co_chunks cresp ! i) = chunk_text (?cs ! i)
              \<and> co_contextualized_text (co_chunks cresp ! i) = spec_contextualize (?cs ! i)
              \<and> sublist (chunk_text (?cs ! i)) (co_contextualized_text (co_chunks cresp ! i))"
      by (simp add: sublist_spec_contextualize)
    show "\<forall>r \<in> set (co_chunks cresp). sublist (co_text r) (co_contextualized_text r)"
    proof
      fix r assume "r \<in> set (co_chunks cresp)"
      then obtain i where "i < length (co_chunks cresp)" and ri: "r = co_chunks cresp ! i"
        by (auto simp: in_set_conv_nth)
      with n have "i < length ?cs" by simp
      from pos [OF this] show "sublist (co_text r) (co_contextualized_text r)"
        by (simp add: ri sublist_spec_contextualize)
    qed
  }
qed


theorem chunk_text_kept_in_contextualized_text_witness:
  "length (chunks (projr (fst (process_pdf_document spec_env demo_upload empty_world)))) = 2
   \<and> sublist ''Hello world.''
       (contextualized_text
          (chunks (projr (fst (process_pdf_document spec_env demo_upload empty_world))) ! 0))
   \<and> sublist ''Second paragraph.''
       (contextualized_text
          (chunks (projr (fst (process_pdf_document spec_env demo_upload empty_world))) ! 1))
   \<and> length (co_chunks (projr (fst (extract_pdf_chunks spec_env demo_upload empty_world))))
       = 2
   \<and> sublist ''Hello world.''
       (co_contextualized_text
          (co_chunks (projr (fst (extract_pdf_chunks spec_env demo_upload empty_world))) ! 0))
   \<and> sublist ''Second paragraph.''
       (co_contextualized_text
          (co_chunks (projr (fst (extract_pdf_chunks spec_env demo_upload empty_world))) ! 1))"
proof -
  let ?run = "process_pdf_document spec_env demo_upload empty_world"
  let ?crun = "extract_pdf_chunks spec_env demo_upload empty_world"
  have ctx: "contextualize spec_env = (\<lambda>c. Inr (spec_contextualize c))"
    and tmp: "named_temporary_file spec_env = Inr ''/tmp/tmpk3.pdf''"
    and rd: "read demo_upload = Inr ''%PDF-1.7''"
    and conv: "convert spec_env ((files empty_world)(''/tmp/tmpk3.pdf'' \<mapsto> ''%PDF-1.7''))
                 ''/tmp/tmpk3.pdf'' = Inr ''%PDF-1.7''"
    and cs: "fst (chunk spec_env ''%PDF-1.7'') = [hello_chunk, second_chunk]"
    by (simp_all add: spec_env_def demo_env_def demo_upload_def empty_world_def)
  have tx: "chunk_text hello_chunk = ''Hello world.''"
    "chunk_text second_chunk = ''Second paragraph.''"
    by (simp_all add: hello_chunk_def second_chunk_def)
  have run: "?run = (Inr (projr (fst ?run)), snd ?run)"
    by (simp add: prod_eq_iff spec_run)
  have crun: "?crun = (Inr (projr (fst ?crun)), snd ?crun)"
    by (simp add: prod_eq_iff spec_chunks_run)
  note th = chunk_text_kept_in_contextualized_text [OF ctx tmp rd conv,
      of "projr (fst ?run)" "snd ?run" "projr (fst ?crun)" "snd ?crun", unfolded cs]
  from th run have a: "length (chunks (projr (fst ?run))) = length [hello_chunk, second_chunk]"
    and b: "\<forall>i < length [hello_chunk, second_chunk].
              sublist (chunk_text ([hello_chunk, second_chunk] ! i))
                (contextualized_text (chunks (projr (fst ?run)) ! i))"
    by blast+
  from th crun have
    c: "length (co_chunks (projr (fst ?crun))) = length [hello_chunk, second_chunk]"
    and d: "\<forall>i < length [hello_chunk, second_chunk].
              sublist (chunk_text ([hello_chunk, second_chunk] ! i))
                (co_contextualized_text (co_chunks (projr (fst ?crun)) ! i))"
    by blast+
  from b have b0: "sublist ''Hello world.''
       (contextualized_text (chunks (projr (fst ?run)) ! 0))"
    and b1: "sublist ''Second paragraph.''
       (contextualized_text (chunks (projr (fst ?run)) ! 1))"
    using tx by (auto dest: spec [of _ 0] spec [of _ 1])
  from d have d0: "sublist ''Hello world.''
       (co_contextualized_text (co_chunks (projr (fst ?crun)) ! 0))"
    and d1: "sublist ''Second paragraph.''
       (co_contextualized_text (co_chunks (projr (fst ?crun)) ! 1))"
    using tx by (auto dest: spec [of _ 0] spec [of _ 1])
  from a c b0 b1 d0 d1 show ?thesis by simp
qed

end
